theory Spec2Isabelle
  imports Main
begin

section \<open>Data of \<open>commands.go\<close>\<close>

text \<open>
  The commands of ghq (\<open>get\<close>, \<open>list\<close>, \<open>look\<close>, \<open>starred\<close>, \<open>pocket\<close>) as functions
  over an explicit world. Strings are byte lists, as Go's strings are.
\<close>

text \<open>
  A Go \<open>error\<close> value. \<open>os.IsNotExist\<close> recognises the errors that report a missing
  file; every other error carries its message.
\<close>

datatype error = ErrNotExist | Err string

fun IsNotExist :: "error \<Rightarrow> bool" where
  "IsNotExist ErrNotExist = True"
| "IsNotExist (Err _) = False"

fun Error :: "error \<Rightarrow> string" where
  "Error ErrNotExist = ''no such file or directory''"
| "Error (Err m) = m"

text \<open>The fields of Go's \<open>url.URL\<close>. \<open>IsAbs\<close> is \<open>Scheme != ""\<close>.\<close>

record URL =
  Scheme :: string
  Opaque :: string
  User :: "string option"
  Host :: string
  Path :: string
  RawQuery :: string
  Fragment :: string

definition IsAbs :: "URL \<Rightarrow> bool" where
  "IsAbs u = (Scheme u \<noteq> '''')"

text \<open>The fields of \<open>LocalRepository\<close> that \<open>commands.go\<close> reads.\<close>

record LocalRepository =
  FullPath :: string
  RelPath :: string
  PathParts :: "string list"

text \<open>
  What a run leaves behind, in order: log lines (label and message), lines printed
  on standard output, the help screen, and the calls into the VCS backend and the
  operating system.
\<close>

datatype event =
    Log string string
  | Println string
  | ShowCommandHelp string
  | CloneCall URL string
  | UpdateCall string
  | ChdirCall string
  | ExecCall string "string list"

text \<open>
  The file system as \<open>os.Stat\<close> sees it: the error it returns for a path, \<open>None\<close> when
  the path exists.
\<close>

type_synonym fs = "string \<Rightarrow> error option"

record world =
  stat :: fs
  chdir :: "string \<Rightarrow> error option"
  getenv :: "string \<Rightarrow> string"
  cwd :: string
  trace :: "event list"

definition emit :: "event list \<Rightarrow> world \<Rightarrow> world" where
  "emit es w = w\<lparr>trace := trace w @ es\<rparr>"

text \<open>
  How a command ends: it returns, it panics (a Go run-time panic or \<open>panic(err)\<close>), or
  it leaves through \<open>os.Exit\<close>.
\<close>

datatype panic = IndexOutOfRange | NilDereference | PanicErr error

datatype outcome = Return world | Panic panic world | Exit nat world

text \<open>The world a command leaves, and the events it added to a trace.\<close>

fun worldOf :: "outcome \<Rightarrow> world" where
  "worldOf (Return w) = w"
| "worldOf (Panic p w) = w"
| "worldOf (Exit n w) = w"

definition newEvents :: "world \<Rightarrow> outcome \<Rightarrow> event list" where
  "newEvents w out = drop (length (trace w)) (trace (worldOf out))"

fun isCloneCall :: "event \<Rightarrow> bool" where
  "isCloneCall (CloneCall u p) = True"
| "isCloneCall _ = False"

subsection \<open>Go's \<open>strings\<close> package\<close>

text \<open>\<open>strings.Split(s, sep)\<close> for a separator of one byte: \<open>Split "" "/"\<close> is \<open>[""]\<close>.\<close>

fun split_byte :: "char \<Rightarrow> string \<Rightarrow> string list" where
  "split_byte c [] = [[]]"
| "split_byte c (x # xs) =
     (if x = c then [] # split_byte c xs
      else (case split_byte c xs of
              [] \<Rightarrow> [[x]]
            | y # ys \<Rightarrow> (x # y) # ys))"

definition Split_slash :: "string \<Rightarrow> string list" where
  "Split_slash s = split_byte (CHR ''/'') s"

fun Join :: "string list \<Rightarrow> string \<Rightarrow> string" where
  "Join [] sep = []"
| "Join [x] sep = x"
| "Join (x # y # ys) sep = x @ sep @ Join (y # ys) sep"

fun HasPrefix :: "string \<Rightarrow> string \<Rightarrow> bool" where
  "HasPrefix s [] = True"
| "HasPrefix [] (p # ps) = False"
| "HasPrefix (c # cs) (p # ps) = (c = p \<and> HasPrefix cs ps)"

fun Contains :: "string \<Rightarrow> string \<Rightarrow> bool" where
  "Contains [] sub = (sub = [])"
| "Contains (c # cs) sub = (HasPrefix (c # cs) sub \<or> Contains cs sub)"

subsection \<open>What \<open>commands.go\<close> calls and does not define\<close>

text \<open>
  \<open>commands.go\<close> calls the standard library (\<open>url.Parse\<close>, \<open>URL.String\<close>, the
  renderings of \<open>fmt.Sprintf\<close> for an \<open>int\<close> under \<open>%d\<close> and for a \<open>*string\<close> under
  \<open>%s\<close>) and other files of the package (\<open>NewRemoteRepository\<close>, the methods of \<open>RemoteRepository\<close> and
  \<open>LocalRepository\<close>, the VCS backends). They are parameters of the model: every
  theorem holds whatever they compute. \<open>'r\<close> is the type behind the interface
  \<open>RemoteRepository\<close>. \<open>remote_Clone\<close> is \<open>remote.VCS().Clone\<close> and \<open>local_Update\<close> is
  \<open>local.VCS().Update\<close>: what the backend's call makes of the file system.
\<close>

record 'r env =
  url_Parse :: "string \<Rightarrow> error + URL"
  url_String :: "URL \<Rightarrow> string"
  fmt_int :: "int \<Rightarrow> string"
  fmt_ptr :: "string \<Rightarrow> string"
  NewRemoteRepository :: "URL \<Rightarrow> error + 'r"
  IsValid :: "'r \<Rightarrow> bool"
  remote_URL :: "'r \<Rightarrow> URL"
  remote_Clone :: "'r \<Rightarrow> URL \<Rightarrow> string \<Rightarrow> fs \<Rightarrow> fs"
  LocalRepositoryFromPathParts :: "string list \<Rightarrow> LocalRepository"
  local_Update :: "LocalRepository \<Rightarrow> string \<Rightarrow> fs \<Rightarrow> fs"
  Subpaths :: "LocalRepository \<Rightarrow> string list"
  Matches :: "LocalRepository \<Rightarrow> string \<Rightarrow> bool"
  NonHostPath :: "LocalRepository \<Rightarrow> string"

subsection \<open>Package \<open>utils\<close>\<close>

text \<open>
  The three helpers of package \<open>utils\<close> are not in \<open>commands.go\<close>. Each does nothing on
  a nil error; the definitions below are the helpers on an error that is not nil.
\<close>

text \<open>
  Modelled from the spec: \<open>utils.DieIf\<close>. Section 7: a single-item command exits with
  failure; the error is logged and the process exits with status 1.
\<close>

definition DieIf :: "error \<Rightarrow> world \<Rightarrow> outcome" where
  "DieIf err w = Exit 1 (emit [Log ''error'' (Error err)] w)"

text \<open>
  Modelled from the spec: \<open>utils.ErrorIf\<close>. Section 7: a batch command logs the error
  of the offending item and proceeds to the next; the helper logs and tells its
  caller that there was an error.
\<close>

definition ErrorIf :: "error \<Rightarrow> world \<Rightarrow> world" where
  "ErrorIf err w = emit [Log ''error'' (Error err)] w"

text \<open>
  Modelled from the spec: \<open>utils.PanicIf\<close>. Section 7: an I/O failure is fatal for the
  run, propagated and not swallowed; the helper panics with the error.
\<close>

definition PanicIf :: "error \<Rightarrow> world \<Rightarrow> outcome" where
  "PanicIf err w = Panic (PanicErr err) w"

section \<open>\<open>get\<close>\<close>

text \<open>
  Lines 131--135 of \<open>getRemoteRepository\<close>: the host, then the pieces of the URL's
  path around each \<open>/\<close>, handed to \<open>LocalRepositoryFromPathParts\<close>.
\<close>

definition pathParts :: "URL \<Rightarrow> string list" where
  "pathParts remoteURL = Host remoteURL # Split_slash (Path remoteURL)"

definition localOf :: "'r env \<Rightarrow> 'r \<Rightarrow> LocalRepository" where
  "localOf env remote = LocalRepositoryFromPathParts env (pathParts (remote_URL env remote))"

text \<open>
  Lines 137--159. \<open>newPath\<close> and \<open>err\<close> are the two variables of the source after the
  \<open>os.Stat\<close> block: a missing path sets \<open>newPath\<close> and clears \<open>err\<close>; \<open>utils.PanicIf\<close>
  then panics on an error that is left.
\<close>

definition getRemoteRepository :: "'r env \<Rightarrow> 'r \<Rightarrow> bool \<Rightarrow> world \<Rightarrow> outcome" where
  "getRemoteRepository env remote doUpdate w =
     (let remoteURL = remote_URL env remote;
          local = localOf env remote;
          path = FullPath local;
          (newPath, err) =
            (case stat w path of
               None \<Rightarrow> (False, None)
             | Some e \<Rightarrow> if IsNotExist e then (True, None) else (False, Some e))
      in case err of
           Some e \<Rightarrow> PanicIf e w
         | None \<Rightarrow>
             if newPath then
               Return ((emit [Log ''clone'' (url_String env remoteURL @ '' -> '' @ path),
                              CloneCall remoteURL path] w)
                       \<lparr>stat := remote_Clone env remote remoteURL path (stat w)\<rparr>)
             else if doUpdate then
               Return ((emit [Log ''update'' path, UpdateCall path] w)
                       \<lparr>stat := local_Update env local path (stat w)\<rparr>)
             else Return (emit [Log ''exists'' path] w))"

text \<open>
  Lines 111--117 of \<open>DoGet\<close>: a URL with no scheme becomes one of \<open>github.com\<close>.
  \<open>url.Path[0]\<close> on an empty path is a run-time panic.
\<close>

definition defaultToGitHub :: "URL \<Rightarrow> panic + URL" where
  "defaultToGitHub url =
     (if \<not> IsAbs url then
        (case Path url of
           [] \<Rightarrow> Inl IndexOutOfRange
         | c # _ \<Rightarrow>
             Inr (url\<lparr>Scheme := ''https'', Host := ''github.com'',
                      Path := (if c \<noteq> CHR ''/'' then ''/'' @ Path url else Path url)\<rparr>))
      else Inr url)"

text \<open>Lines 119--127 of \<open>DoGet\<close>, from the URL that the lines before have settled.\<close>

definition getURL :: "'r env \<Rightarrow> URL \<Rightarrow> bool \<Rightarrow> world \<Rightarrow> outcome" where
  "getURL env url doUpdate w =
     (case NewRemoteRepository env url of
        Inl err \<Rightarrow> DieIf err w
      | Inr remote \<Rightarrow>
          if IsValid env remote = False then
            Exit 1 (emit [Log ''error'' (''Not a valid repository: '' @ url_String env url)] w)
          else getRemoteRepository env remote doUpdate w)"

definition DoGet :: "'r env \<Rightarrow> string \<Rightarrow> bool \<Rightarrow> world \<Rightarrow> outcome" where
  "DoGet env argUrl doUpdate w =
     (if argUrl = '''' then Exit 1 (emit [ShowCommandHelp ''get''] w)
      else
        (case url_Parse env argUrl of
           Inl err \<Rightarrow> DieIf err w
         | Inr url \<Rightarrow>
             (case defaultToGitHub url of
                Inl p \<Rightarrow> Panic p w
              | Inr url' \<Rightarrow> getURL env url' doUpdate w)))"

section \<open>\<open>list\<close> and \<open>look\<close>\<close>

text \<open>
  Modelled from the spec: \<open>walkLocalRepositories\<close> (not in \<open>commands.go\<close>). Section 4.4:
  the walker yields a finite sequence of local repositories, each found once. It
  calls its argument once for each of them, in order; the model takes that sequence
  (\<open>walked\<close>) as an input and runs the callback over it.
\<close>

fun walkLocalRepositories ::
  "(LocalRepository \<Rightarrow> 's \<Rightarrow> 's) \<Rightarrow> LocalRepository list \<Rightarrow> 's \<Rightarrow> 's" where
  "walkLocalRepositories callback [] s = s"
| "walkLocalRepositories callback (repo # rest) s =
     walkLocalRepositories callback rest (callback repo s)"

text \<open>Lines 168--181: the filter that the query and \<open>--exact\<close> select.\<close>

definition filterFn :: "'r env \<Rightarrow> string \<Rightarrow> bool \<Rightarrow> LocalRepository \<Rightarrow> bool" where
  "filterFn env query exact repo =
     (if query = '''' then True
      else if exact then Matches env repo query
      else Contains (NonHostPath env repo) query)"

text \<open>Lines 183--191: the repositories that pass the filter, appended as they come.\<close>

definition listedRepos ::
  "'r env \<Rightarrow> string \<Rightarrow> bool \<Rightarrow> LocalRepository list \<Rightarrow> LocalRepository list" where
  "listedRepos env query exact walked =
     walkLocalRepositories
       (\<lambda>repo repos. if filterFn env query exact repo = False then repos else repos @ [repo])
       walked []"

text \<open>
  Lines 194--200. \<open>subpathCount\<close> is a Go \<open>map[string]int\<close>, read only by key: an absent
  key reads as 0, so the map is a function that is 0 where nothing was stored. The
  counts stay far below the range of a 64-bit \<open>int\<close>.
\<close>

fun countSubpaths :: "string list \<Rightarrow> (string \<Rightarrow> int) \<Rightarrow> (string \<Rightarrow> int)" where
  "countSubpaths [] subpathCount = subpathCount"
| "countSubpaths (p # ps) subpathCount =
     countSubpaths ps (subpathCount(p := subpathCount p + 1))"

fun countRepos ::
  "'r env \<Rightarrow> LocalRepository list \<Rightarrow> (string \<Rightarrow> int) \<Rightarrow> (string \<Rightarrow> int)" where
  "countRepos env [] subpathCount = subpathCount"
| "countRepos env (repo # repos) subpathCount =
     countRepos env repos (countSubpaths (Subpaths env repo) subpathCount)"

text \<open>Lines 202--209: for each repository the first subpath counted once, then \<open>break\<close>.\<close>

fun printFirstUnique :: "(string \<Rightarrow> int) \<Rightarrow> string list \<Rightarrow> event list" where
  "printFirstUnique subpathCount [] = []"
| "printFirstUnique subpathCount (p # ps) =
     (if subpathCount p = 1 then [Println p] else printFirstUnique subpathCount ps)"

fun printUnique :: "'r env \<Rightarrow> (string \<Rightarrow> int) \<Rightarrow> LocalRepository list \<Rightarrow> event list" where
  "printUnique env subpathCount [] = []"
| "printUnique env subpathCount (repo # repos) =
     printFirstUnique subpathCount (Subpaths env repo) @ printUnique env subpathCount repos"

definition DoList ::
  "'r env \<Rightarrow> string \<Rightarrow> bool \<Rightarrow> bool \<Rightarrow> bool \<Rightarrow> LocalRepository list \<Rightarrow> world \<Rightarrow> world" where
  "DoList env query exact printFullPaths printUniquePaths walked w =
     (let repos = listedRepos env query exact walked
      in if printUniquePaths then
           (let subpathCount = countRepos env repos (\<lambda>_. 0)
            in emit (printUnique env subpathCount repos) w)
         else
           emit (map (\<lambda>repo. if printFullPaths then Println (FullPath repo)
                              else Println (RelPath repo)) repos) w)"

text \<open>
  \<open>DoLook\<close>. \<open>syscall.Exec\<close> replaces the process by the shell when it succeeds and
  returns an error, which the source drops, when it fails: in both cases nothing
  more of \<open>DoLook\<close> runs.
\<close>

definition DoLook :: "'r env \<Rightarrow> string \<Rightarrow> LocalRepository list \<Rightarrow> world \<Rightarrow> outcome" where
  "DoLook env name walked w =
     (if name = '''' then Exit 1 (emit [ShowCommandHelp ''look''] w)
      else
        (let reposFound =
               walkLocalRepositories
                 (\<lambda>repo found. if Matches env repo name then found @ [repo] else found)
                 walked []
         in case length reposFound of
              0 \<Rightarrow> Return (emit [Log ''error'' ''No repository found''] w)
            | Suc 0 \<Rightarrow>
                (let shell = (if getenv w ''SHELL'' = '''' then ''/bin/sh''
                              else getenv w ''SHELL'')
                 in case chdir w (FullPath (reposFound ! 0)) of
                      Some err \<Rightarrow> PanicIf err (emit [ChdirCall (FullPath (reposFound ! 0))] w)
                    | None \<Rightarrow>
                        Return ((emit [ChdirCall (FullPath (reposFound ! 0)),
                                       ExecCall shell [shell]] w)
                                \<lparr>cwd := FullPath (reposFound ! 0)\<rparr>))
            | Suc (Suc _) \<Rightarrow>
                Return (emit
                  (Log ''error'' ''More than one repositories are found; Try more precise name''
                   # map (\<lambda>repo. Log ''error'' (''- '' @ Join (PathParts repo) ''/'')) reposFound)
                  w)))"

section \<open>\<open>starred\<close> and \<open>pocket\<close>\<close>

text \<open>A Go \<open>for _, x := range xs\<close> whose body may panic or exit.\<close>

fun forEach :: "('a \<Rightarrow> world \<Rightarrow> outcome) \<Rightarrow> 'a list \<Rightarrow> world \<Rightarrow> outcome" where
  "forEach body [] w = Return w"
| "forEach body (x # xs) w =
     (case body x w of
        Return w' \<Rightarrow> forEach body xs w'
      | Panic p w' \<Rightarrow> Panic p w'
      | Exit n w' \<Rightarrow> Exit n w')"

text \<open>
  Lines 278--294, the body of the inner loop of \<open>DoStarred\<close>. \<open>repo.HTMLURL\<close> is a
  \<open>*string\<close>: \<open>None\<close> is the nil pointer, whose dereference panics.
\<close>

definition starredItem :: "'r env \<Rightarrow> bool \<Rightarrow> string option \<Rightarrow> world \<Rightarrow> outcome" where
  "starredItem env doUpdate HTMLURL w =
     (case HTMLURL of
        None \<Rightarrow> Panic NilDereference w
      | Some s \<Rightarrow>
          (case url_Parse env s of
             Inl err \<Rightarrow>
               Return (emit [Log ''error''
                  (''Could not parse URL <'' @ fmt_ptr env s @ ''>: '' @ Error err)] w)
           | Inr url \<Rightarrow>
               (case NewRemoteRepository env url of
                  Inl err \<Rightarrow> Return (ErrorIf err w)
                | Inr remote \<Rightarrow>
                    if IsValid env remote = False then
                      Return (emit [Log ''error''
                         (''Not a valid repository: '' @ url_String env url)] w)
                    else getRemoteRepository env remote doUpdate w)))"

text \<open>
  Lines 270--300. \<open>listStarred\<close> is \<open>client.Activity.ListStarred\<close> for the user: the
  page's repositories and \<open>res.LastPage\<close>, or an error. The loop ends only on an error
  or on the page whose number is \<open>LastPage\<close>, so it may run forever: \<open>None\<close>.
\<close>

partial_function (option) starredPages ::
  "'r env \<Rightarrow> (int \<Rightarrow> error + string option list \<times> int) \<Rightarrow> bool \<Rightarrow> int \<Rightarrow> world
    \<Rightarrow> outcome option" where
  "starredPages env listStarred doUpdate page w =
     (case listStarred page of
        Inl err \<Rightarrow> Some (DieIf err w)
      | Inr res \<Rightarrow>
          (case forEach (starredItem env doUpdate) (fst res)
                  (emit [Log ''page'' (fmt_int env page @ ''/'' @ fmt_int env (snd res))] w) of
             Return w' \<Rightarrow>
               if page = snd res then Some (Return w')
               else starredPages env listStarred doUpdate (page + 1) w'
           | Panic p w' \<Rightarrow> Some (Panic p w')
           | Exit n w' \<Rightarrow> Some (Exit n w')))"

declare starredPages.simps [code]

definition DoStarred ::
  "'r env \<Rightarrow> string \<Rightarrow> (string \<Rightarrow> int \<Rightarrow> error + string option list \<times> int) \<Rightarrow> bool \<Rightarrow> world
    \<Rightarrow> outcome option" where
  "DoStarred env user listStarred doUpdate w =
     (if user = '''' then Some (Exit 1 (emit [ShowCommandHelp ''starred''] w))
      else starredPages env (listStarred user) doUpdate 1 w)"

text \<open>Lines 337--353, the body of the loop of \<open>DoPocket\<close>.\<close>

definition pocketItem :: "'r env \<Rightarrow> bool \<Rightarrow> string \<Rightarrow> world \<Rightarrow> outcome" where
  "pocketItem env doUpdate ResolvedURL w =
     (case url_Parse env ResolvedURL of
        Inl err \<Rightarrow>
          Return (emit [Log ''error''
             (''Could not parse URL <'' @ ResolvedURL @ ''>: '' @ Error err)] w)
      | Inr url \<Rightarrow>
          (case NewRemoteRepository env url of
             Inl err \<Rightarrow> Return (ErrorIf err w)
           | Inr remote \<Rightarrow>
               if IsValid env remote = False then
                 Return (emit [Log ''error''
                    (''Not a valid repository: '' @ url_String env url)] w)
               else getRemoteRepository env remote doUpdate w))"

text \<open>
  Lines 332--354 of \<open>DoPocket\<close>, once the access token is at hand (lines 304--330 talk
  to Pocket and to \<open>git config\<close> only). \<open>retrieved\<close> is what
  \<open>pocket.RetrieveGitHubEntries\<close> returns: the resolved URLs of \<open>res.List\<close>, or an error.
\<close>

definition DoPocket :: "'r env \<Rightarrow> error + string list \<Rightarrow> bool \<Rightarrow> world \<Rightarrow> outcome" where
  "DoPocket env retrieved doUpdate w =
     (case retrieved of
        Inl err \<Rightarrow> DieIf err (emit [Log ''pocket'' ''Retrieving github.com entries''] w)
      | Inr items \<Rightarrow>
          forEach (pocketItem env doUpdate) items
            (emit [Log ''pocket'' ''Retrieving github.com entries''] w))"

text \<open>
  The pages of a feed taken one after the other, numbered from \<open>page\<close>: for each the
  log line of the page, then its repositories in the order of the page. This is what
  the pages loop of \<open>DoStarred\<close> is to do on a feed of finitely many pages.
\<close>

fun pagesFrom ::
  "'r env \<Rightarrow> bool \<Rightarrow> int \<Rightarrow> int \<Rightarrow> string option list list \<Rightarrow> world \<Rightarrow> outcome" where
  "pagesFrom env doUpdate lastPage page [] w = Return w"
| "pagesFrom env doUpdate lastPage page (repositories # later) w =
     (case forEach (starredItem env doUpdate) repositories
             (emit [Log ''page'' (fmt_int env page @ ''/'' @ fmt_int env lastPage)] w) of
        Return w' \<Rightarrow> pagesFrom env doUpdate lastPage (page + 1) later w'
      | Panic p w' \<Rightarrow> Panic p w'
      | Exit n w' \<Rightarrow> Exit n w')"

text \<open>
  An item that a batch turns away: its URL does not parse, \<open>NewRemoteRepository\<close> fails
  on it, or the repository is not valid.
\<close>

definition itemRejected :: "'r env \<Rightarrow> string \<Rightarrow> bool" where
  "itemRejected env s =
     (case url_Parse env s of
        Inl err \<Rightarrow> True
      | Inr url \<Rightarrow>
          (case NewRemoteRepository env url of
             Inl err \<Rightarrow> True
           | Inr remote \<Rightarrow> IsValid env remote = False))"

section \<open>An instance of the parameters\<close>

text \<open>
  The closed examples below need the parameters at concrete values. The functions of
  the package that \<open>commands.go\<close> does not define are taken as the spec describes
  them, those of the standard library at their values on the example inputs.
\<close>

text \<open>
  Modelled from the spec: \<open>LocalRepositoryFromPathParts\<close> (not in \<open>commands.go\<close>).
  Section 4.3: \<open>pathParts = [host, owner, project]\<close> and
  \<open>fullPath = root/host/owner/project\<close>; section 3: \<open>fullPath = root + pathParts joined
  by separator\<close>, \<open>relPath\<close> the path relative to the root, every segment non-empty.
  \<open>getRemoteRepository\<close> hands over the host and the pieces of the URL's path, of which
  the piece before the leading \<open>/\<close> is empty: the repository's path parts are the
  parts that are not empty.
\<close>

definition LocalRepositoryFromPathParts_spec :: "string \<Rightarrow> string list \<Rightarrow> LocalRepository" where
  "LocalRepositoryFromPathParts_spec root parts =
     \<lparr>FullPath = Join (root # filter (\<lambda>s. s \<noteq> '''') parts) ''/'',
      RelPath = Join (filter (\<lambda>s. s \<noteq> '''') parts) ''/'',
      PathParts = filter (\<lambda>s. s \<noteq> '''') parts\<rparr>"

text \<open>
  Modelled from the spec: \<open>LocalRepository.Subpaths\<close> (not in \<open>commands.go\<close>). Section 3:
  all path suffixes of \<open>pathParts\<close>, for \<open>github.com/alice/foo\<close> they are \<open>foo\<close>,
  \<open>alice/foo\<close> and \<open>github.com/alice/foo\<close>; section 4.4 iterates them from shortest to
  longest.
\<close>

fun suffixesOf :: "'a list \<Rightarrow> 'a list list" where
  "suffixesOf [] = []"
| "suffixesOf (x # xs) = suffixesOf xs @ [x # xs]"

definition Subpaths_spec :: "LocalRepository \<Rightarrow> string list" where
  "Subpaths_spec repo = map (\<lambda>ps. Join ps ''/'') (suffixesOf (PathParts repo))"

text \<open>
  Modelled from the spec: \<open>LocalRepository.Matches\<close> (not in \<open>commands.go\<close>). Section 4.4:
  true when the query equals the full \<open>pathParts\<close> joined by \<open>/\<close>, or equals a trailing
  subpath that is unique among the repository's own subpaths.
\<close>

definition Matches_spec :: "LocalRepository \<Rightarrow> string \<Rightarrow> bool" where
  "Matches_spec repo query =
     (query = Join (PathParts repo) ''/'' \<or> count_list (Subpaths_spec repo) query = 1)"

text \<open>
  Modelled from the spec: \<open>LocalRepository.NonHostPath\<close> (not in \<open>commands.go\<close>).
  Section 4.4: the path with the host segment removed.
\<close>

definition NonHostPath_spec :: "LocalRepository \<Rightarrow> string" where
  "NonHostPath_spec repo = Join (tl (PathParts repo)) ''/''"

text \<open>
  Modelled from the spec: the \<open>clone\<close> of a VCS backend (not in \<open>commands.go\<close>), where
  it succeeds. Section 4.2: it creates the destination path, parent directories
  included.
\<close>

definition Clone_spec :: "URL \<Rightarrow> string \<Rightarrow> fs \<Rightarrow> fs" where
  "Clone_spec remoteURL path files =
     (\<lambda>p. if p = path \<or> HasPrefix path (p @ ''/'') then None else files p)"

text \<open>
  Modelled from the spec: the \<open>update\<close> of a VCS backend (not in \<open>commands.go\<close>), where
  it succeeds. Section 4.2: it works inside an existing working copy; no path comes
  into being or goes away above it.
\<close>

definition Update_spec :: "string \<Rightarrow> fs \<Rightarrow> fs" where
  "Update_spec path files = files"

text \<open>
  Modelled from the spec: \<open>NewRemoteRepository\<close> (not in \<open>commands.go\<close>). Section 4.1: the
  host selects the VCS from a table of known hosts (\<open>github.com\<close> is one); sections
  4.1 and 7: an unknown host is an error. The remote repository is its URL.
\<close>

definition NewRemoteRepository_spec :: "URL \<Rightarrow> error + URL" where
  "NewRemoteRepository_spec url =
     (if Host url = ''github.com'' then Inr url
      else Inl (Err (''Unsupported host: '' @ Host url)))"

text \<open>
  Modelled from the spec: \<open>RemoteRepository.IsValid\<close> (not in \<open>commands.go\<close>). Section
  4.1: the path must hold at least two non-empty segments after the host, owner and
  project.
\<close>

definition IsValid_spec :: "URL \<Rightarrow> bool" where
  "IsValid_spec url = (2 \<le> length (filter (\<lambda>s. s \<noteq> '''') (Split_slash (Path url))))"

text \<open>
  A stand-in for \<open>url.Parse\<close> that agrees with Go's \<open>net/url\<close> on what it covers: the
  URLs of the examples; \<open>?a=b\<close>, which is all query; \<open>%zz\<close>, an invalid escape; and
  every reference free of \<open>%\<close>, \<open>#\<close>, \<open>?\<close>, \<open>:\<close> and control characters that does not
  start with \<open>//\<close>, which is all path (so \<open>alice/foo\<close>, \<open>/alice/foo\<close> and \<open>not a url\<close>
  parse to their own text as the path). On any other string its value is a
  placeholder that nothing below reads.
\<close>

definition nullURL :: URL where
  "nullURL = \<lparr>Scheme = '''', Opaque = '''', User = None, Host = '''', Path = '''',
              RawQuery = '''', Fragment = ''''\<rparr>"

definition zz_error :: string where
  \<open>zz_error = ''parse "%zz": invalid URL escape "%zz"''\<close>

definition plainReference :: "string \<Rightarrow> bool" where
  "plainReference s =
     (list_all (\<lambda>c. c \<notin> set ''%#?:'' \<and> 32 \<le> (of_char c :: nat) \<and> (of_char c :: nat) \<noteq> 127) s
      \<and> \<not> HasPrefix s ''//'')"

definition url_Parse_examples :: "string \<Rightarrow> error + URL" where
  "url_Parse_examples s =
     (if s = ''https://github.com/alice/foo'' then
        Inr (nullURL\<lparr>Scheme := ''https'', Host := ''github.com'', Path := ''/alice/foo''\<rparr>)
      else if s = ''https://github.com/bob/bar'' then
        Inr (nullURL\<lparr>Scheme := ''https'', Host := ''github.com'', Path := ''/bob/bar''\<rparr>)
      else if s = ''https://github.com/onlyowner'' then
        Inr (nullURL\<lparr>Scheme := ''https'', Host := ''github.com'', Path := ''/onlyowner''\<rparr>)
      else if s = ''https://example.org/alice/foo'' then
        Inr (nullURL\<lparr>Scheme := ''https'', Host := ''example.org'', Path := ''/alice/foo''\<rparr>)
      else if s = ''?a=b'' then Inr (nullURL\<lparr>RawQuery := ''a=b''\<rparr>)
      else if s = ''%zz'' then Inl (Err zz_error)
      else if plainReference s then Inr (nullURL\<lparr>Path := s\<rparr>)
      else Inl (Err ''outside the examples''))"

text \<open>
  \<open>URL.String\<close> for a URL whose user, path and fragment need no escaping: the scheme
  and \<open>:\<close>; the opaque part, or \<open>//\<close> with user and host when there is a scheme, a
  host or a user, and the path, after a \<open>/\<close> if it lacks one and there is a host; \<open>?\<close>
  and the query; \<open>#\<close> and the fragment.
\<close>

definition url_String_plain :: "URL \<Rightarrow> string" where
  "url_String_plain u =
     (if Scheme u = '''' then '''' else Scheme u @ '':'')
     @ (if Opaque u = '''' then
          (if Scheme u = '''' \<and> Host u = '''' \<and> User u = None then ''''
           else ''//'' @ (case User u of None \<Rightarrow> '''' | Some ui \<Rightarrow> ui @ ''@'') @ Host u)
          @ (if Path u = '''' then ''''
             else if hd (Path u) = CHR ''/'' then Path u
             else if Host u = '''' then Path u
             else ''/'' @ Path u)
        else Opaque u)
     @ (if RawQuery u = '''' then '''' else ''?'' @ RawQuery u)
     @ (if Fragment u = '''' then '''' else ''#'' @ Fragment u)"

text \<open>\<open>%d\<close> of an \<open>int\<close>: decimal digits, with a sign when negative.\<close>

function digits :: "nat \<Rightarrow> string" where
  "digits n =
     (if n < 10 then [''0123456789'' ! n]
      else digits (n div 10) @ [''0123456789'' ! (n mod 10)])"
  by pat_completeness auto
termination
  by (relation "measure id") auto

definition fmt_int_decimal :: "int \<Rightarrow> string" where
  "fmt_int_decimal i = (if i < 0 then ''-'' @ digits (nat (- i)) else digits (nat i))"

definition example_env :: "URL env" where
  "example_env =
     \<lparr>url_Parse = url_Parse_examples,
      url_String = url_String_plain,
      fmt_int = fmt_int_decimal,
      fmt_ptr = (\<lambda>s. ''%!s(*string=0xc000010250)''),
      NewRemoteRepository = NewRemoteRepository_spec,
      IsValid = IsValid_spec,
      remote_URL = (\<lambda>u. u),
      remote_Clone = (\<lambda>u. Clone_spec),
      LocalRepositoryFromPathParts = LocalRepositoryFromPathParts_spec ''/home/user/.ghq'',
      local_Update = (\<lambda>repo. Update_spec),
      Subpaths = Subpaths_spec,
      Matches = Matches_spec,
      NonHostPath = NonHostPath_spec\<rparr>"

text \<open>A world with nothing under the root, and no \<open>SHELL\<close> set.\<close>

definition empty_world :: world where
  "empty_world =
     \<lparr>stat = (\<lambda>p. Some ErrNotExist), chdir = (\<lambda>p. None), getenv = (\<lambda>v. ''''),
      cwd = ''/'', trace = []\<rparr>"

text \<open>The same world when \<open>os.Stat\<close> fails for a reason other than a missing file.\<close>

definition denied_world :: world where
  "denied_world = empty_world\<lparr>stat := (\<lambda>p. Some (Err ''permission denied''))\<rparr>"

text \<open>The URL of \<open>https://github.com/alice/foo\<close>.\<close>

definition alice_foo_url :: URL where
  "alice_foo_url =
     nullURL\<lparr>Scheme := ''https'', Host := ''github.com'', Path := ''/alice/foo''\<rparr>"

text \<open>A feed of starred repositories in two pages.\<close>

definition two_pages :: "string \<Rightarrow> int \<Rightarrow> error + string option list \<times> int" where
  "two_pages user page =
     (if page = 1 then Inr ([Some ''%zz'', Some ''https://github.com/bob/bar''], 2)
      else if page = 2 then
        Inr ([Some ''https://github.com/onlyowner'', Some ''https://github.com/alice/foo''], 2)
      else Inl (Err ''no such page''))"

text \<open>Two repositories as the walker reports them.\<close>

definition alice_foo :: LocalRepository where
  "alice_foo =
     \<lparr>FullPath = ''/home/user/.ghq/github.com/alice/foo'', RelPath = ''github.com/alice/foo'',
      PathParts = [''github.com'', ''alice'', ''foo'']\<rparr>"

definition bob_foo :: LocalRepository where
  "bob_foo =
     \<lparr>FullPath = ''/home/user/.ghq/github.com/bob/foo'', RelPath = ''github.com/bob/foo'',
      PathParts = [''github.com'', ''bob'', ''foo'']\<rparr>"

section \<open>\<open>get\<close>: clone, update or leave alone\<close>

lemma getRemoteRepository_cases:
  "getRemoteRepository env remote doUpdate w =
     (case stat w (FullPath (localOf env remote)) of
        None \<Rightarrow>
          if doUpdate then
            Return (w\<lparr>trace := trace w @ [Log ''update'' (FullPath (localOf env remote)),
                                           UpdateCall (FullPath (localOf env remote))],
                      stat := local_Update env (localOf env remote)
                                (FullPath (localOf env remote)) (stat w)\<rparr>)
          else Return (w\<lparr>trace := trace w @ [Log ''exists'' (FullPath (localOf env remote))]\<rparr>)
      | Some e \<Rightarrow>
          if IsNotExist e then
            Return (w\<lparr>trace := trace w @
                        [Log ''clone'' (url_String env (remote_URL env remote) @ '' -> ''
                                         @ FullPath (localOf env remote)),
                         CloneCall (remote_URL env remote) (FullPath (localOf env remote))],
                      stat := remote_Clone env remote (remote_URL env remote)
                                (FullPath (localOf env remote)) (stat w)\<rparr>)
          else Panic (PanicErr e) w)"
  by (simp add: getRemoteRepository_def Let_def PanicIf_def emit_def split: option.splits)

lemma getRemoteRepository_no_index_panic:
  "getRemoteRepository env remote doUpdate w \<noteq> Panic IndexOutOfRange w'"
  by (simp add: getRemoteRepository_cases split: option.splits)

lemma getURL_no_index_panic: "getURL env url doUpdate w \<noteq> Panic IndexOutOfRange w'"
  by (simp add: getURL_def DieIf_def getRemoteRepository_no_index_panic split: sum.splits)

lemmas example_get_defs =
  example_env_def url_Parse_examples_def url_String_plain_def NewRemoteRepository_spec_def
  IsValid_spec_def LocalRepositoryFromPathParts_spec_def plainReference_def Clone_spec_def
  Update_spec_def nullURL_def alice_foo_url_def empty_world_def denied_world_def
  localOf_def pathParts_def Split_slash_def

text \<open>
  C1. \<open>getRemoteRepository\<close> calls the backend's clone exactly when \<open>os.Stat\<close> reports
  the local path missing. When the path exists and \<open>doUpdate\<close> is set it logs and
  calls the update; when the path exists and \<open>doUpdate\<close> is not set it only logs
  \<open>exists\<close>: the file system and everything else of the world stay as they were. So a
  call without update is idempotent: after a first call that returned and left the
  path in place (it was there, or the clone created it), a second call returns,
  adds the \<open>exists\<close> line and calls no clone.
\<close>

theorem get_clones_iff_absent:
  "(list_ex isCloneCall (newEvents w (getRemoteRepository env remote doUpdate w))
      \<longleftrightarrow> (\<exists>e. stat w (FullPath (localOf env remote)) = Some e \<and> IsNotExist e))
   \<and> (stat w (FullPath (localOf env remote)) = None \<and> doUpdate \<longrightarrow>
        newEvents w (getRemoteRepository env remote doUpdate w) =
          [Log ''update'' (FullPath (localOf env remote)),
           UpdateCall (FullPath (localOf env remote))])
   \<and> (stat w (FullPath (localOf env remote)) = None \<and> \<not> doUpdate \<longrightarrow>
        getRemoteRepository env remote doUpdate w =
          Return (w\<lparr>trace := trace w @ [Log ''exists'' (FullPath (localOf env remote))]\<rparr>))
   \<and> (getRemoteRepository env remote False w = Return w1
        \<and> stat w1 (FullPath (localOf env remote)) = None \<longrightarrow>
        getRemoteRepository env remote False w1 =
          Return (w1\<lparr>trace := trace w1 @ [Log ''exists'' (FullPath (localOf env remote))]\<rparr>)
        \<and> \<not> list_ex isCloneCall (newEvents w1 (getRemoteRepository env remote False w1)))"
  by (auto simp add: getRemoteRepository_cases newEvents_def split: option.splits)

text \<open>
  An instance: nothing is under the root, \<open>get\<close> of \<open>github.com/alice/foo\<close> clones;
  the clone creates the path, the second \<open>get\<close> clones nothing, and a \<open>get\<close> with
  update calls the update.
\<close>

theorem get_clones_iff_absent_witness:
  "stat empty_world (FullPath (localOf example_env alice_foo_url)) = Some ErrNotExist
   \<and> list_ex isCloneCall
        (newEvents empty_world (getRemoteRepository example_env alice_foo_url False empty_world))
   \<and> getRemoteRepository example_env alice_foo_url False empty_world =
       Return (empty_world
         \<lparr>trace := [Log ''clone''
                      ''https://github.com/alice/foo -> /home/user/.ghq/github.com/alice/foo'',
                    CloneCall alice_foo_url ''/home/user/.ghq/github.com/alice/foo''],
          stat := Clone_spec alice_foo_url ''/home/user/.ghq/github.com/alice/foo''
                    (stat empty_world)\<rparr>)
   \<and> stat (empty_world
         \<lparr>trace := [Log ''clone''
                      ''https://github.com/alice/foo -> /home/user/.ghq/github.com/alice/foo'',
                    CloneCall alice_foo_url ''/home/user/.ghq/github.com/alice/foo''],
          stat := Clone_spec alice_foo_url ''/home/user/.ghq/github.com/alice/foo''
                    (stat empty_world)\<rparr>) (FullPath (localOf example_env alice_foo_url)) = None
   \<and> \<not> list_ex isCloneCall
        (newEvents
          (empty_world
            \<lparr>trace := [Log ''clone''
                      ''https://github.com/alice/foo -> /home/user/.ghq/github.com/alice/foo'',
                    CloneCall alice_foo_url ''/home/user/.ghq/github.com/alice/foo''],
             stat := Clone_spec alice_foo_url ''/home/user/.ghq/github.com/alice/foo''
                    (stat empty_world)\<rparr>)
          (getRemoteRepository example_env alice_foo_url False
            (empty_world
              \<lparr>trace := [Log ''clone''
                      ''https://github.com/alice/foo -> /home/user/.ghq/github.com/alice/foo'',
                    CloneCall alice_foo_url ''/home/user/.ghq/github.com/alice/foo''],
               stat := Clone_spec alice_foo_url ''/home/user/.ghq/github.com/alice/foo''
                    (stat empty_world)\<rparr>)))
   \<and> newEvents
        (empty_world
          \<lparr>trace := [Log ''clone''
                      ''https://github.com/alice/foo -> /home/user/.ghq/github.com/alice/foo'',
                    CloneCall alice_foo_url ''/home/user/.ghq/github.com/alice/foo''],
           stat := Clone_spec alice_foo_url ''/home/user/.ghq/github.com/alice/foo''
                    (stat empty_world)\<rparr>)
        (getRemoteRepository example_env alice_foo_url True
          (empty_world
            \<lparr>trace := [Log ''clone''
                      ''https://github.com/alice/foo -> /home/user/.ghq/github.com/alice/foo'',
                    CloneCall alice_foo_url ''/home/user/.ghq/github.com/alice/foo''],
             stat := Clone_spec alice_foo_url ''/home/user/.ghq/github.com/alice/foo''
                    (stat empty_world)\<rparr>)) =
       [Log ''update'' (FullPath (localOf example_env alice_foo_url)),
        UpdateCall (FullPath (localOf example_env alice_foo_url))]"
proof -
  let ?w1 = "empty_world
       \<lparr>trace := [Log ''clone''
                    ''https://github.com/alice/foo -> /home/user/.ghq/github.com/alice/foo'',
                  CloneCall alice_foo_url ''/home/user/.ghq/github.com/alice/foo''],
        stat := Clone_spec alice_foo_url ''/home/user/.ghq/github.com/alice/foo''
                  (stat empty_world)\<rparr>"
  have absent: "stat empty_world (FullPath (localOf example_env alice_foo_url)) = Some ErrNotExist
                \<and> IsNotExist ErrNotExist"
    by (simp add: example_get_defs)
  have first: "getRemoteRepository example_env alice_foo_url False empty_world = Return ?w1"
    by (simp add: getRemoteRepository_cases example_get_defs)
  have there: "stat ?w1 (FullPath (localOf example_env alice_foo_url)) = None"
    by (simp add: example_get_defs)
  from absent
    get_clones_iff_absent [where w = empty_world and env = example_env
      and remote = alice_foo_url and doUpdate = False]
  have cloned: "list_ex isCloneCall
        (newEvents empty_world (getRemoteRepository example_env alice_foo_url False empty_world))"
    by blast
  from first there
    get_clones_iff_absent [where w = empty_world and env = example_env
      and remote = alice_foo_url and doUpdate = False and ?w1.0 = ?w1]
  have again: "\<not> list_ex isCloneCall
        (newEvents ?w1 (getRemoteRepository example_env alice_foo_url False ?w1))"
    by blast
  from there
    get_clones_iff_absent [where w = ?w1 and env = example_env
      and remote = alice_foo_url and doUpdate = True]
  have updated: "newEvents ?w1 (getRemoteRepository example_env alice_foo_url True ?w1) =
       [Log ''update'' (FullPath (localOf example_env alice_foo_url)),
        UpdateCall (FullPath (localOf example_env alice_foo_url))]"
    by blast
  from absent cloned first there again updated show ?thesis by blast
qed

text \<open>
  C8. When \<open>os.Stat\<close> on the local path fails with an error that is not "does not
  exist", \<open>getRemoteRepository\<close> panics with that very error and touches nothing;
  \<open>get\<close> ends with the same panic, and so does a batch at that item, whatever
  items follow. When the error is "does not exist" it is the ordinary case of an
  absent path: the clone is logged and called.
\<close>

theorem stat_error_is_fatal:
  "(stat w (FullPath (localOf env remote)) = Some e \<and> \<not> IsNotExist e \<longrightarrow>
      getRemoteRepository env remote doUpdate w = Panic (PanicErr e) w
      \<and> (NewRemoteRepository env url = Inr remote \<and> IsValid env remote \<longrightarrow>
           getURL env url doUpdate w = Panic (PanicErr e) w
           \<and> (url_Parse env s = Inr url \<longrightarrow>
                forEach (pocketItem env doUpdate) (s # rest) w = Panic (PanicErr e) w)))
   \<and> (stat w (FullPath (localOf env remote)) = Some e \<and> IsNotExist e \<longrightarrow>
      getRemoteRepository env remote doUpdate w =
        Return (w\<lparr>trace := trace w @
                    [Log ''clone'' (url_String env (remote_URL env remote) @ '' -> ''
                                     @ FullPath (localOf env remote)),
                     CloneCall (remote_URL env remote) (FullPath (localOf env remote))],
                  stat := remote_Clone env remote (remote_URL env remote)
                            (FullPath (localOf env remote)) (stat w)\<rparr>))"
  by (simp add: getRemoteRepository_cases getURL_def pocketItem_def)

text \<open>
  An instance: with \<open>permission denied\<close> from \<open>os.Stat\<close> the call panics with that
  error, and so do \<open>get\<close> and a batch that reaches the item; with nothing under the
  root it clones.
\<close>

theorem stat_error_is_fatal_witness:
  "stat denied_world (FullPath (localOf example_env alice_foo_url)) = Some (Err ''permission denied'')
   \<and> \<not> IsNotExist (Err ''permission denied'')
   \<and> url_Parse example_env ''https://github.com/alice/foo'' = Inr alice_foo_url
   \<and> NewRemoteRepository example_env alice_foo_url = Inr alice_foo_url
   \<and> IsValid example_env alice_foo_url
   \<and> getRemoteRepository example_env alice_foo_url False denied_world =
       Panic (PanicErr (Err ''permission denied'')) denied_world
   \<and> getURL example_env alice_foo_url False denied_world =
       Panic (PanicErr (Err ''permission denied'')) denied_world
   \<and> forEach (pocketItem example_env False)
        (''https://github.com/alice/foo'' # [''https://github.com/bob/bar'']) denied_world =
       Panic (PanicErr (Err ''permission denied'')) denied_world
   \<and> stat empty_world (FullPath (localOf example_env alice_foo_url)) = Some ErrNotExist
   \<and> IsNotExist ErrNotExist
   \<and> newEvents empty_world (getRemoteRepository example_env alice_foo_url False empty_world) =
       [Log ''clone'' ''https://github.com/alice/foo -> /home/user/.ghq/github.com/alice/foo'',
        CloneCall alice_foo_url ''/home/user/.ghq/github.com/alice/foo'']"
proof -
  have a: "stat denied_world (FullPath (localOf example_env alice_foo_url)) =
             Some (Err ''permission denied'') \<and> \<not> IsNotExist (Err ''permission denied'')"
    by (simp add: example_get_defs)
  have b: "NewRemoteRepository example_env alice_foo_url = Inr alice_foo_url
           \<and> IsValid example_env alice_foo_url"
    by (simp add: example_get_defs)
  have p: "url_Parse example_env ''https://github.com/alice/foo'' = Inr alice_foo_url"
    by (simp add: example_get_defs)
  have c: "stat empty_world (FullPath (localOf example_env alice_foo_url)) = Some ErrNotExist
           \<and> IsNotExist ErrNotExist"
    by (simp add: example_get_defs)
  from a b p
    stat_error_is_fatal [where w = denied_world and env = example_env and remote = alice_foo_url
      and e = "Err ''permission denied''" and url = alice_foo_url and doUpdate = False
      and s = "''https://github.com/alice/foo''" and rest = "[''https://github.com/bob/bar'']"]
  have d: "getRemoteRepository example_env alice_foo_url False denied_world =
       Panic (PanicErr (Err ''permission denied'')) denied_world
     \<and> getURL example_env alice_foo_url False denied_world =
       Panic (PanicErr (Err ''permission denied'')) denied_world
     \<and> forEach (pocketItem example_env False)
        (''https://github.com/alice/foo'' # [''https://github.com/bob/bar'']) denied_world =
       Panic (PanicErr (Err ''permission denied'')) denied_world"
    by blast
  from c stat_error_is_fatal [where w = empty_world and env = example_env
      and remote = alice_foo_url and e = ErrNotExist and url = alice_foo_url and doUpdate = False]
  have "getRemoteRepository example_env alice_foo_url False empty_world =
        Return (empty_world\<lparr>trace := trace empty_world @
                    [Log ''clone'' (url_String example_env (remote_URL example_env alice_foo_url)
                                     @ '' -> '' @ FullPath (localOf example_env alice_foo_url)),
                     CloneCall (remote_URL example_env alice_foo_url)
                       (FullPath (localOf example_env alice_foo_url))],
                  stat := remote_Clone example_env alice_foo_url
                            (remote_URL example_env alice_foo_url)
                            (FullPath (localOf example_env alice_foo_url)) (stat empty_world)\<rparr>)"
    by blast
  then have e: "newEvents empty_world
        (getRemoteRepository example_env alice_foo_url False empty_world) =
       [Log ''clone'' ''https://github.com/alice/foo -> /home/user/.ghq/github.com/alice/foo'',
        CloneCall alice_foo_url ''/home/user/.ghq/github.com/alice/foo'']"
    by (simp add: newEvents_def example_get_defs)
  from a b p c d e show ?thesis by blast
qed

section \<open>\<open>get\<close>: the local repository of a remote one\<close>






section \<open>\<open>get\<close>: references without a scheme\<close>

text \<open>
  C10. When the reference is not empty and parses to a URL with no scheme, \<open>DoGet\<close>
  panics with an index out of range, before any validity check, exactly when the
  parsed path is empty (as for \<open>?a=b\<close>); with a non-empty path the step yields a URL
  and \<open>DoGet\<close> never ends in that panic.
\<close>

theorem shorthand_empty_path_panics:
  "argUrl \<noteq> '''' \<and> url_Parse env argUrl = Inr u \<and> \<not> IsAbs u \<longrightarrow>
     (Path u = '''' \<longrightarrow> DoGet env argUrl doUpdate w = Panic IndexOutOfRange w)
     \<and> (Path u \<noteq> '''' \<longrightarrow>
          DoGet env argUrl doUpdate w \<noteq> Panic IndexOutOfRange w'
          \<and> (\<exists>url'. defaultToGitHub u = Inr url'))"
  by (auto simp add: DoGet_def defaultToGitHub_def getURL_no_index_panic split: list.splits)

text \<open>
  An instance: \<open>?a=b\<close> parses to an empty path and the query \<open>a=b\<close>, and \<open>get\<close>
  panics; \<open>alice/foo\<close> parses to the path \<open>alice/foo\<close>, and it does not.
\<close>

theorem shorthand_empty_path_panics_witness:
  "''?a=b'' \<noteq> '''' \<and> url_Parse example_env ''?a=b'' = Inr (nullURL\<lparr>RawQuery := ''a=b''\<rparr>)
   \<and> \<not> IsAbs (nullURL\<lparr>RawQuery := ''a=b''\<rparr>) \<and> Path (nullURL\<lparr>RawQuery := ''a=b''\<rparr>) = ''''
   \<and> DoGet example_env ''?a=b'' True empty_world = Panic IndexOutOfRange empty_world
   \<and> url_Parse example_env ''alice/foo'' = Inr (nullURL\<lparr>Path := ''alice/foo''\<rparr>)
   \<and> \<not> IsAbs (nullURL\<lparr>Path := ''alice/foo''\<rparr>)
   \<and> Path (nullURL\<lparr>Path := ''alice/foo''\<rparr>) \<noteq> ''''
   \<and> DoGet example_env ''alice/foo'' True empty_world \<noteq> Panic IndexOutOfRange empty_world"
proof -
  have h: "''?a=b'' \<noteq> '''' \<and> url_Parse example_env ''?a=b'' = Inr (nullURL\<lparr>RawQuery := ''a=b''\<rparr>)
     \<and> \<not> IsAbs (nullURL\<lparr>RawQuery := ''a=b''\<rparr>)"
    by (simp add: example_env_def url_Parse_examples_def plainReference_def IsAbs_def nullURL_def)
  have p: "Path (nullURL\<lparr>RawQuery := ''a=b''\<rparr>) = ''''"
    by (simp add: nullURL_def)
  have h': "''alice/foo'' \<noteq> ''''
     \<and> url_Parse example_env ''alice/foo'' = Inr (nullURL\<lparr>Path := ''alice/foo''\<rparr>)
     \<and> \<not> IsAbs (nullURL\<lparr>Path := ''alice/foo''\<rparr>)"
    by (simp add: example_env_def url_Parse_examples_def plainReference_def IsAbs_def nullURL_def)
  have p': "Path (nullURL\<lparr>Path := ''alice/foo''\<rparr>) \<noteq> ''''"
    by (simp add: nullURL_def)
  from h p
    shorthand_empty_path_panics [where argUrl = "''?a=b''" and env = example_env
      and u = "nullURL\<lparr>RawQuery := ''a=b''\<rparr>" and doUpdate = True and w = empty_world]
  have a: "DoGet example_env ''?a=b'' True empty_world = Panic IndexOutOfRange empty_world"
    by blast
  from h' p'
    shorthand_empty_path_panics [where argUrl = "''alice/foo''" and env = example_env
      and u = "nullURL\<lparr>Path := ''alice/foo''\<rparr>" and doUpdate = True and w = empty_world
      and w' = empty_world]
  have b: "DoGet example_env ''alice/foo'' True empty_world \<noteq> Panic IndexOutOfRange empty_world"
    by blast
  from h p h' p' a b show ?thesis by blast
qed

text \<open>
  C7 at \<open>?a=b\<close>: the reference has no path segment at all, and \<open>get\<close> neither reports
  an invalid reference nor exits through \<open>os.Exit\<close>; it panics in \<open>url.Path[0]\<close>.
\<close>

theorem get_query_only_reference:
  "DoGet example_env ''?a=b'' False empty_world = Panic IndexOutOfRange empty_world
   \<and> newEvents empty_world (DoGet example_env ''?a=b'' False empty_world) = []"
  by (simp add: DoGet_def example_env_def url_Parse_examples_def plainReference_def defaultToGitHub_def IsAbs_def
        nullURL_def newEvents_def)

text \<open>
  C2, as the code has it. A reference that is not empty and parses to a URL with no
  scheme and a non-empty path is taken as one of GitHub: the scheme becomes \<open>https\<close>,
  the host \<open>github.com\<close>, and the path gets a \<open>/\<close> in front unless it starts with one
  already; \<open>get\<close> goes on with that URL. So \<open>alice/foo\<close> and
  \<open>https://github.com/alice/foo\<close>, parsed as \<open>net/url\<close> parses them, end the same way.
\<close>

theorem shorthand_defaults:
  "(argUrl \<noteq> '''' \<and> url_Parse env argUrl = Inr u \<and> \<not> IsAbs u \<and> Path u \<noteq> '''' \<longrightarrow>
      DoGet env argUrl doUpdate w =
        getURL env (u\<lparr>Scheme := ''https'', Host := ''github.com'',
                      Path := (if hd (Path u) = CHR ''/'' then Path u else ''/'' @ Path u)\<rparr>)
          doUpdate w)
   \<and> (url_Parse env ''alice/foo'' = Inr (nullURL\<lparr>Path := ''alice/foo''\<rparr>)
      \<and> url_Parse env ''https://github.com/alice/foo'' =
          Inr (nullURL\<lparr>Scheme := ''https'', Host := ''github.com'', Path := ''/alice/foo''\<rparr>) \<longrightarrow>
      DoGet env ''alice/foo'' doUpdate w = DoGet env ''https://github.com/alice/foo'' doUpdate w)"
  by (cases u)
     (auto simp add: DoGet_def defaultToGitHub_def IsAbs_def nullURL_def split: list.splits)

text \<open>An instance: \<open>alice/foo\<close> becomes \<open>https://github.com/alice/foo\<close> and is cloned.\<close>

theorem shorthand_defaults_witness:
  "''alice/foo'' \<noteq> '''' \<and> url_Parse example_env ''alice/foo'' = Inr (nullURL\<lparr>Path := ''alice/foo''\<rparr>)
   \<and> \<not> IsAbs (nullURL\<lparr>Path := ''alice/foo''\<rparr>) \<and> Path (nullURL\<lparr>Path := ''alice/foo''\<rparr>) \<noteq> ''''
   \<and> url_Parse example_env ''https://github.com/alice/foo'' = Inr alice_foo_url
   \<and> DoGet example_env ''alice/foo'' False empty_world =
       getURL example_env alice_foo_url False empty_world
   \<and> DoGet example_env ''alice/foo'' False empty_world =
       DoGet example_env ''https://github.com/alice/foo'' False empty_world"
proof -
  have h: "''alice/foo'' \<noteq> ''''
     \<and> url_Parse example_env ''alice/foo'' = Inr (nullURL\<lparr>Path := ''alice/foo''\<rparr>)
     \<and> \<not> IsAbs (nullURL\<lparr>Path := ''alice/foo''\<rparr>)
     \<and> Path (nullURL\<lparr>Path := ''alice/foo''\<rparr>) \<noteq> ''''"
    by (simp add: example_env_def url_Parse_examples_def plainReference_def IsAbs_def nullURL_def)
  have g: "url_Parse example_env ''https://github.com/alice/foo'' =
      Inr (nullURL\<lparr>Scheme := ''https'', Host := ''github.com'', Path := ''/alice/foo''\<rparr>)"
    by (simp add: example_env_def url_Parse_examples_def plainReference_def)
  have u: "(nullURL\<lparr>Path := ''alice/foo''\<rparr>)
             \<lparr>Scheme := ''https'', Host := ''github.com'',
              Path := (if hd (Path (nullURL\<lparr>Path := ''alice/foo''\<rparr>)) = CHR ''/''
                       then Path (nullURL\<lparr>Path := ''alice/foo''\<rparr>)
                       else ''/'' @ Path (nullURL\<lparr>Path := ''alice/foo''\<rparr>))\<rparr> = alice_foo_url"
    by (simp add: alice_foo_url_def nullURL_def)
  note inst = shorthand_defaults [where argUrl = "''alice/foo''" and env = example_env
      and u = "nullURL\<lparr>Path := ''alice/foo''\<rparr>" and doUpdate = False and w = empty_world]
  from h inst
  have "DoGet example_env ''alice/foo'' False empty_world =
        getURL example_env
          ((nullURL\<lparr>Path := ''alice/foo''\<rparr>)
             \<lparr>Scheme := ''https'', Host := ''github.com'',
              Path := (if hd (Path (nullURL\<lparr>Path := ''alice/foo''\<rparr>)) = CHR ''/''
                       then Path (nullURL\<lparr>Path := ''alice/foo''\<rparr>)
                       else ''/'' @ Path (nullURL\<lparr>Path := ''alice/foo''\<rparr>))\<rparr>)
          False empty_world"
    by blast
  with u have a: "DoGet example_env ''alice/foo'' False empty_world =
        getURL example_env alice_foo_url False empty_world"
    by simp
  from h g inst
  have b: "DoGet example_env ''alice/foo'' False empty_world =
        DoGet example_env ''https://github.com/alice/foo'' False empty_world"
    by blast
  from g have g': "url_Parse example_env ''https://github.com/alice/foo'' = Inr alice_foo_url"
    by (simp add: alice_foo_url_def)
  from h g' a b show ?thesis by blast
qed

text \<open>
  C2 as stated fails where the path of the reference starts with \<open>/\<close>: \<open>/alice/foo\<close>
  has no scheme and no host, \<open>get\<close> accepts it and clones
  \<open>https://github.com/alice/foo\<close>; the path stays \<open>/alice/foo\<close>, which is the reference
  itself and not the reference with a \<open>/\<close> in front.
\<close>

theorem shorthand_leading_slash:
  "url_Parse_examples ''/alice/foo'' = Inr (nullURL\<lparr>Path := ''/alice/foo''\<rparr>)
   \<and> defaultToGitHub (nullURL\<lparr>Path := ''/alice/foo''\<rparr>) =
       Inr (nullURL\<lparr>Scheme := ''https'', Host := ''github.com'', Path := ''/alice/foo''\<rparr>)
   \<and> ''/alice/foo'' \<noteq> ''/'' @ ''/alice/foo''
   \<and> newEvents empty_world (DoGet example_env ''/alice/foo'' False empty_world) =
       [Log ''clone'' ''https://github.com/alice/foo -> /home/user/.ghq/github.com/alice/foo'',
        CloneCall (nullURL\<lparr>Scheme := ''https'', Host := ''github.com'', Path := ''/alice/foo''\<rparr>)
          ''/home/user/.ghq/github.com/alice/foo'']"
  by (simp add: defaultToGitHub_def IsAbs_def DoGet_def getURL_def getRemoteRepository_cases
        newEvents_def example_get_defs)

section \<open>\<open>list\<close>: unique subpaths\<close>

lemma walk_collect:
  "walkLocalRepositories (\<lambda>repo acc. if P repo then acc @ [repo] else acc) walked acc =
     acc @ filter P walked"
  by (induction walked arbitrary: acc) auto



lemma countSubpaths_count: "countSubpaths ps m p = m p + int (count_list ps p)"
  by (induction ps arbitrary: m) auto

lemma countRepos_count:
  "countRepos env repos m p = m p + int (count_list (concat (map (Subpaths env) repos)) p)"
  by (induction repos arbitrary: m) (auto simp add: countSubpaths_count)

lemma printFirstUnique_find:
  "printFirstUnique m ps = (case find (\<lambda>p. m p = 1) ps of None \<Rightarrow> [] | Some p \<Rightarrow> [Println p])"
  by (induction ps) auto

lemma printUnique_concat:
  "printUnique env m repos = concat (map (\<lambda>repo. printFirstUnique m (Subpaths env repo)) repos)"
  by (induction repos) auto

lemma find_shortest:
  "sorted_wrt (\<lambda>a b. length a < length b) ps \<Longrightarrow> find P ps = Some p \<Longrightarrow> q \<in> set ps \<Longrightarrow> P q
     \<Longrightarrow> length p \<le> length q"
  by (induction ps) (auto split: if_splits)

lemmas example_list_defs =
  example_env_def Subpaths_spec_def Matches_spec_def NonHostPath_spec_def alice_foo_def
  bob_foo_def empty_world_def listedRepos_def filterFn_def

text \<open>
  C3. With \<open>--unique\<close>, \<open>DoList\<close> prints for each listed repository, in order, at most
  one line: the first of its subpaths, in the order \<open>Subpaths\<close> gives them, that occurs
  exactly once among all subpaths of all listed repositories, and no line when it has
  none. Where \<open>Subpaths\<close> runs from shortest to longest, the line printed is a shortest
  subpath of count 1. For \<open>github.com/alice/foo\<close> and \<open>github.com/bob/foo\<close> the lines
  are \<open>alice/foo\<close> and \<open>bob/foo\<close>.
\<close>

theorem unique_listing:
  "trace (DoList env query exact printFullPaths True walked w) =
     trace w @ concat (map
       (\<lambda>repo. case find (\<lambda>p. count_list (concat (map (Subpaths env)
                                    (listedRepos env query exact walked))) p = 1)
                     (Subpaths env repo) of
                 None \<Rightarrow> []
               | Some p \<Rightarrow> [Println p])
       (listedRepos env query exact walked))
   \<and> (printFirstUnique (countRepos env (listedRepos env query exact walked) (\<lambda>_. 0))
         (Subpaths env repo) = [Println p]
       \<and> sorted_wrt (\<lambda>a b. length a < length b) (Subpaths env repo)
       \<and> q \<in> set (Subpaths env repo)
       \<and> count_list (concat (map (Subpaths env) (listedRepos env query exact walked))) q = 1
       \<longrightarrow> length p \<le> length q)
   \<and> trace (DoList example_env '''' False False True [alice_foo, bob_foo] empty_world) =
       [Println ''alice/foo'', Println ''bob/foo'']"
proof (intro conjI impI)
  show "trace (DoList env query exact printFullPaths True walked w) =
     trace w @ concat (map
       (\<lambda>repo. case find (\<lambda>p. count_list (concat (map (Subpaths env)
                                    (listedRepos env query exact walked))) p = 1)
                     (Subpaths env repo) of
                 None \<Rightarrow> []
               | Some p \<Rightarrow> [Println p])
       (listedRepos env query exact walked))"
    by (simp add: DoList_def Let_def emit_def printUnique_concat printFirstUnique_find
          countRepos_count)
next
  assume h: "printFirstUnique (countRepos env (listedRepos env query exact walked) (\<lambda>_. 0))
         (Subpaths env repo) = [Println p]
       \<and> sorted_wrt (\<lambda>a b. length a < length b) (Subpaths env repo)
       \<and> q \<in> set (Subpaths env repo)
       \<and> count_list (concat (map (Subpaths env) (listedRepos env query exact walked))) q = 1"
  let ?P = "\<lambda>p. count_list (concat (map (Subpaths env) (listedRepos env query exact walked))) p = 1"
  from h have "find ?P (Subpaths env repo) = Some p"
    by (simp add: printFirstUnique_find countRepos_count split: option.splits)
  with h show "length p \<le> length q"
    using find_shortest[of "Subpaths env repo" ?P p q] by simp
next
  show "trace (DoList example_env '''' False False True [alice_foo, bob_foo] empty_world) =
       [Println ''alice/foo'', Println ''bob/foo'']"
    by (simp add: DoList_def Let_def emit_def example_list_defs)
qed

text \<open>
  An instance: of the subpaths \<open>foo\<close>, \<open>alice/foo\<close>, \<open>github.com/alice/foo\<close> the first
  occurs twice, and \<open>alice/foo\<close>, not the longer \<open>github.com/alice/foo\<close>, is printed.
\<close>

theorem unique_listing_witness:
  "Subpaths example_env alice_foo = [''foo'', ''alice/foo'', ''github.com/alice/foo'']
   \<and> printFirstUnique
        (countRepos example_env (listedRepos example_env '''' False [alice_foo, bob_foo]) (\<lambda>_. 0))
        (Subpaths example_env alice_foo) = [Println ''alice/foo'']
   \<and> sorted_wrt (\<lambda>a b. length a < length b) (Subpaths example_env alice_foo)
   \<and> ''github.com/alice/foo'' \<in> set (Subpaths example_env alice_foo)
   \<and> count_list (concat (map (Subpaths example_env)
        (listedRepos example_env '''' False [alice_foo, bob_foo]))) ''github.com/alice/foo'' = 1
   \<and> length ''alice/foo'' \<le> length ''github.com/alice/foo''"
proof -
  have s: "Subpaths example_env alice_foo = [''foo'', ''alice/foo'', ''github.com/alice/foo'']"
    by (simp add: example_list_defs)
  have h: "printFirstUnique
        (countRepos example_env (listedRepos example_env '''' False [alice_foo, bob_foo]) (\<lambda>_. 0))
        (Subpaths example_env alice_foo) = [Println ''alice/foo'']
   \<and> sorted_wrt (\<lambda>a b. length a < length b) (Subpaths example_env alice_foo)
   \<and> ''github.com/alice/foo'' \<in> set (Subpaths example_env alice_foo)
   \<and> count_list (concat (map (Subpaths example_env)
        (listedRepos example_env '''' False [alice_foo, bob_foo]))) ''github.com/alice/foo'' = 1"
    by (simp add: example_list_defs)
  from s h
    unique_listing [where env = example_env and query = "''''" and exact = False
      and walked = "[alice_foo, bob_foo]" and repo = alice_foo and p = "''alice/foo''"
      and q = "''github.com/alice/foo''"]
  show ?thesis by blast
qed



section \<open>\<open>look\<close>\<close>

lemma DoLook_found:
  "name \<noteq> '''' \<Longrightarrow>
   DoLook env name walked w =
     (case filter (\<lambda>repo. Matches env repo name) walked of
        [] \<Rightarrow> Return (emit [Log ''error'' ''No repository found''] w)
      | [repo] \<Rightarrow>
          (case chdir w (FullPath repo) of
             Some err \<Rightarrow> Panic (PanicErr err) (emit [ChdirCall (FullPath repo)] w)
           | None \<Rightarrow>
               Return ((emit [ChdirCall (FullPath repo),
                              ExecCall (if getenv w ''SHELL'' = '''' then ''/bin/sh''
                                        else getenv w ''SHELL'')
                                [if getenv w ''SHELL'' = '''' then ''/bin/sh''
                                 else getenv w ''SHELL'']] w)
                       \<lparr>cwd := FullPath repo\<rparr>))
      | repo # repo' # others \<Rightarrow>
          Return (emit
            (Log ''error'' ''More than one repositories are found; Try more precise name''
             # map (\<lambda>r. Log ''error'' (''- '' @ Join (PathParts r) ''/''))
                 (repo # repo' # others)) w))"
  by (simp add: DoLook_def walk_collect Let_def PanicIf_def split: list.splits option.splits)

text \<open>
  C6, as the code has it. For a query that is not empty: with no matching repository
  \<open>DoLook\<close> logs an error and returns; with exactly one it changes into the
  repository's full path and executes the shell there, and panics if the change of
  directory fails; with two or more it logs that the name is ambiguous and then one
  line for each candidate, in order, holding the candidate's path parts joined by
  \<open>/\<close> (its path relative to the root), and returns.
\<close>

theorem look_outcomes:
  "name \<noteq> '''' \<longrightarrow>
     (filter (\<lambda>repo. Matches env repo name) walked = [] \<longrightarrow>
        DoLook env name walked w = Return (emit [Log ''error'' ''No repository found''] w))
   \<and> (filter (\<lambda>repo. Matches env repo name) walked = [repo]
        \<and> chdir w (FullPath repo) = None \<longrightarrow>
        (\<exists>shell. DoLook env name walked w =
           Return ((emit [ChdirCall (FullPath repo), ExecCall shell [shell]] w)
                   \<lparr>cwd := FullPath repo\<rparr>)))
   \<and> (filter (\<lambda>repo. Matches env repo name) walked = [repo]
        \<and> chdir w (FullPath repo) = Some err \<longrightarrow>
        DoLook env name walked w = Panic (PanicErr err) (emit [ChdirCall (FullPath repo)] w))
   \<and> (2 \<le> length (filter (\<lambda>repo. Matches env repo name) walked) \<longrightarrow>
        DoLook env name walked w =
          Return (emit
            (Log ''error'' ''More than one repositories are found; Try more precise name''
             # map (\<lambda>r. Log ''error'' (''- '' @ Join (PathParts r) ''/''))
                 (filter (\<lambda>repo. Matches env repo name) walked)) w))"
  by (auto simp add: DoLook_found split: list.splits)

text \<open>
  An instance: among \<open>github.com/alice/foo\<close> and \<open>github.com/bob/foo\<close>, the query
  \<open>carol\<close> has no match, \<open>alice/foo\<close> has one and the shell starts in its full path,
  \<open>foo\<close> has two.
\<close>

theorem look_outcomes_witness:
  "filter (\<lambda>repo. Matches example_env repo ''carol'') [alice_foo, bob_foo] = []
   \<and> DoLook example_env ''carol'' [alice_foo, bob_foo] empty_world =
       Return (emit [Log ''error'' ''No repository found''] empty_world)
   \<and> filter (\<lambda>repo. Matches example_env repo ''alice/foo'') [alice_foo, bob_foo] = [alice_foo]
   \<and> chdir empty_world (FullPath alice_foo) = None
   \<and> (\<exists>shell. DoLook example_env ''alice/foo'' [alice_foo, bob_foo] empty_world =
         Return ((emit [ChdirCall (FullPath alice_foo), ExecCall shell [shell]] empty_world)
                 \<lparr>cwd := FullPath alice_foo\<rparr>))
   \<and> filter (\<lambda>repo. Matches example_env repo ''foo'') [alice_foo, bob_foo] =
       [alice_foo, bob_foo]
   \<and> DoLook example_env ''foo'' [alice_foo, bob_foo] empty_world =
       Return (emit
         (Log ''error'' ''More than one repositories are found; Try more precise name''
          # map (\<lambda>r. Log ''error'' (''- '' @ Join (PathParts r) ''/''))
              (filter (\<lambda>repo. Matches example_env repo ''foo'') [alice_foo, bob_foo]))
         empty_world)"
proof -
  have none: "''carol'' \<noteq> ''''
     \<and> filter (\<lambda>repo. Matches example_env repo ''carol'') [alice_foo, bob_foo] = []"
    by (simp add: example_list_defs)
  have one: "''alice/foo'' \<noteq> ''''
     \<and> filter (\<lambda>repo. Matches example_env repo ''alice/foo'') [alice_foo, bob_foo] = [alice_foo]
     \<and> chdir empty_world (FullPath alice_foo) = None"
    by (simp add: example_list_defs)
  have two: "''foo'' \<noteq> ''''
     \<and> filter (\<lambda>repo. Matches example_env repo ''foo'') [alice_foo, bob_foo] =
           [alice_foo, bob_foo]"
    by (simp add: example_list_defs)
  then have many:
    "2 \<le> length (filter (\<lambda>repo. Matches example_env repo ''foo'') [alice_foo, bob_foo])"
    by simp
  from none
    look_outcomes [where name = "''carol''" and env = example_env
      and walked = "[alice_foo, bob_foo]" and w = empty_world]
  have a: "DoLook example_env ''carol'' [alice_foo, bob_foo] empty_world =
       Return (emit [Log ''error'' ''No repository found''] empty_world)"
    by blast
  from one
    look_outcomes [where name = "''alice/foo''" and env = example_env
      and walked = "[alice_foo, bob_foo]" and repo = alice_foo and w = empty_world]
  have b: "\<exists>shell. DoLook example_env ''alice/foo'' [alice_foo, bob_foo] empty_world =
         Return ((emit [ChdirCall (FullPath alice_foo), ExecCall shell [shell]] empty_world)
                 \<lparr>cwd := FullPath alice_foo\<rparr>)"
    by blast
  from two many
    look_outcomes [where name = "''foo''" and env = example_env
      and walked = "[alice_foo, bob_foo]" and w = empty_world]
  have c: "DoLook example_env ''foo'' [alice_foo, bob_foo] empty_world =
       Return (emit
         (Log ''error'' ''More than one repositories are found; Try more precise name''
          # map (\<lambda>r. Log ''error'' (''- '' @ Join (PathParts r) ''/''))
              (filter (\<lambda>repo. Matches example_env repo ''foo'') [alice_foo, bob_foo]))
         empty_world)"
    by blast
  from none one two a b c show ?thesis by blast
qed

text \<open>
  C6 as stated fails in its last part: for the query \<open>foo\<close> both repositories match,
  and the lines logged hold \<open>github.com/alice/foo\<close> and \<open>github.com/bob/foo\<close>; the full
  paths, which start with the root \<open>/home/user/.ghq\<close>, are in none of them.
\<close>

theorem look_lists_relative_paths:
  "newEvents empty_world (DoLook example_env ''foo'' [alice_foo, bob_foo] empty_world) =
     [Log ''error'' ''More than one repositories are found; Try more precise name'',
      Log ''error'' ''- github.com/alice/foo'',
      Log ''error'' ''- github.com/bob/foo'']
   \<and> FullPath alice_foo = ''/home/user/.ghq/github.com/alice/foo''
   \<and> FullPath bob_foo = ''/home/user/.ghq/github.com/bob/foo''
   \<and> \<not> Contains ''- github.com/alice/foo'' (FullPath alice_foo)
   \<and> \<not> Contains ''- github.com/bob/foo'' (FullPath bob_foo)"
  by (simp add: DoLook_def Let_def emit_def newEvents_def example_list_defs)

section \<open>\<open>starred\<close> and \<open>pocket\<close>: one item at a time\<close>

lemma forEach_append:
  "forEach body (xs @ ys) w =
     (case forEach body xs w of
        Return w' \<Rightarrow> forEach body ys w'
      | Panic p w' \<Rightarrow> Panic p w'
      | Exit n w' \<Rightarrow> Exit n w')"
  by (induction xs arbitrary: w) (auto split: outcome.splits)

lemma pocketItem_rejected:
  "itemRejected env s \<Longrightarrow> \<exists>m. pocketItem env doUpdate s w = Return (emit [Log ''error'' m] w)"
  by (auto simp add: itemRejected_def pocketItem_def ErrorIf_def split: sum.splits)

lemma starredItem_rejected:
  "itemRejected env s \<Longrightarrow>
     \<exists>m. starredItem env doUpdate (Some s) w = Return (emit [Log ''error'' m] w)"
  by (auto simp add: itemRejected_def starredItem_def ErrorIf_def split: sum.splits)

text \<open>
  The pages loop on a feed of finitely many pages: when page \<open>k + i\<close> of the feed is
  the \<open>i\<close>-th of \<open>ps\<close> and every page names the last of them as \<open>LastPage\<close>, the loop
  started at page \<open>k\<close> ends, and it has taken the pages in order.
\<close>

lemma starredPages_feed:
  "ps \<noteq> [] \<Longrightarrow>
   (\<forall>i<length ps. listStarred (k + int i) = Inr (ps ! i, k + int (length ps) - 1)) \<Longrightarrow>
   starredPages env listStarred doUpdate k w =
     Some (pagesFrom env doUpdate (k + int (length ps) - 1) k ps w)"
proof (induction ps arbitrary: k w)
  case Nil
  then show ?case by simp
next
  case (Cons repositories later)
  let ?last = "k + int (length (repositories # later)) - 1"
  let ?w0 = "emit [Log ''page'' (fmt_int env k @ ''/'' @ fmt_int env ?last)] w"
  from Cons.prems(2) have here: "listStarred k = Inr (repositories, ?last)"
    by force
  show ?case
  proof (cases "later = []")
    case True
    then have "k = ?last" by simp
    with here True show ?thesis
      by (subst starredPages.simps) (simp split: outcome.splits)
  next
    case False
    then have ne: "k \<noteq> ?last" by simp
    have shift: "\<forall>i<length later.
        listStarred (k + 1 + int i) = Inr (later ! i, k + 1 + int (length later) - 1)"
    proof (intro allI impI)
      fix i assume "i < length later"
      then have "Suc i < length (repositories # later)" by simp
      with Cons.prems(2)
      have "listStarred (k + int (Suc i)) = Inr ((repositories # later) ! Suc i, ?last)"
        by blast
      then show "listStarred (k + 1 + int i) = Inr (later ! i, k + 1 + int (length later) - 1)"
        by (simp add: add.assoc)
    qed
    have step: "\<And>w'. starredPages env listStarred doUpdate (k + 1) w' =
        Some (pagesFrom env doUpdate ?last (k + 1) later w')"
      using Cons.IH[OF False shift] by simp
    from here ne show ?thesis
      by (subst starredPages.simps) (simp add: step split: outcome.splits)
  qed
qed

text \<open>
  C9. In the loops of \<open>DoPocket\<close> and \<open>DoStarred\<close>, an item whose URL does not parse,
  on which \<open>NewRemoteRepository\<close> fails, or whose repository is not valid adds one error
  line to the log, changes nothing else, and the loop goes on with the items after
  it. The items are handled one after the other in the order of the list: running
  the loop over \<open>items @ rest\<close> is running it over \<open>items\<close> and then, if that returned,
  over \<open>rest\<close> from the world it left. \<open>DoPocket\<close> is that loop over the entries
  retrieved. \<open>DoStarred\<close>, for a user and a feed of finitely many pages each naming
  the last one, ends, and it has run that loop over the first page, then over the
  second, and so on to the last, each after the log line of its page.
\<close>

theorem batch_skips_rejected_item:
  "(itemRejected env s \<longrightarrow>
      (\<exists>m. pocketItem env doUpdate s w = Return (emit [Log ''error'' m] w)
          \<and> forEach (pocketItem env doUpdate) (s # rest) w =
              forEach (pocketItem env doUpdate) rest (emit [Log ''error'' m] w))
    \<and> (\<exists>m. starredItem env doUpdate (Some s) w = Return (emit [Log ''error'' m] w)
          \<and> forEach (starredItem env doUpdate) (Some s # others) w =
              forEach (starredItem env doUpdate) others (emit [Log ''error'' m] w)))
   \<and> forEach (pocketItem env doUpdate) (items @ rest) w =
       (case forEach (pocketItem env doUpdate) items w of
          Return w' \<Rightarrow> forEach (pocketItem env doUpdate) rest w'
        | Panic p w' \<Rightarrow> Panic p w'
        | Exit n w' \<Rightarrow> Exit n w')
   \<and> forEach (starredItem env doUpdate) (repositories @ others) w =
       (case forEach (starredItem env doUpdate) repositories w of
          Return w' \<Rightarrow> forEach (starredItem env doUpdate) others w'
        | Panic p w' \<Rightarrow> Panic p w'
        | Exit n w' \<Rightarrow> Exit n w')
   \<and> DoPocket env (Inr items) doUpdate w =
       forEach (pocketItem env doUpdate) items
         (emit [Log ''pocket'' ''Retrieving github.com entries''] w)
   \<and> (user \<noteq> '''' \<and> pages \<noteq> []
        \<and> (\<forall>i<length pages.
              listStarred user (1 + int i) = Inr (pages ! i, int (length pages))) \<longrightarrow>
       DoStarred env user listStarred doUpdate w =
         Some (pagesFrom env doUpdate (int (length pages)) 1 pages w))
   \<and> (listStarred user page = Inr (repositories, lastPage) \<longrightarrow>
       starredPages env (listStarred user) doUpdate page w =
         (case forEach (starredItem env doUpdate) repositories
                 (emit [Log ''page'' (fmt_int env page @ ''/'' @ fmt_int env lastPage)] w) of
            Return w' \<Rightarrow>
              if page = lastPage then Some (Return w')
              else starredPages env (listStarred user) doUpdate (page + 1) w'
          | Panic p w' \<Rightarrow> Some (Panic p w')
          | Exit n w' \<Rightarrow> Some (Exit n w')))"
proof (intro conjI impI)
  assume r: "itemRejected env s"
  from pocketItem_rejected[OF r, of doUpdate w]
  show "\<exists>m. pocketItem env doUpdate s w = Return (emit [Log ''error'' m] w)
          \<and> forEach (pocketItem env doUpdate) (s # rest) w =
              forEach (pocketItem env doUpdate) rest (emit [Log ''error'' m] w)"
    by auto
  from starredItem_rejected[OF r, of doUpdate w]
  show "\<exists>m. starredItem env doUpdate (Some s) w = Return (emit [Log ''error'' m] w)
          \<and> forEach (starredItem env doUpdate) (Some s # others) w =
              forEach (starredItem env doUpdate) others (emit [Log ''error'' m] w)"
    by auto
next
  assume h: "user \<noteq> '''' \<and> pages \<noteq> []
        \<and> (\<forall>i<length pages.
              listStarred user (1 + int i) = Inr (pages ! i, int (length pages)))"
  then have "\<forall>i<length pages.
      listStarred user (1 + int i) = Inr (pages ! i, 1 + int (length pages) - 1)"
    by simp
  with h have "starredPages env (listStarred user) doUpdate 1 w =
      Some (pagesFrom env doUpdate (1 + int (length pages) - 1) 1 pages w)"
    using starredPages_feed[of pages "listStarred user" 1 env doUpdate w] by blast
  with h show "DoStarred env user listStarred doUpdate w =
         Some (pagesFrom env doUpdate (int (length pages)) 1 pages w)"
    by (simp add: DoStarred_def)
next
  assume "listStarred user page = Inr (repositories, lastPage)"
  then show "starredPages env (listStarred user) doUpdate page w =
         (case forEach (starredItem env doUpdate) repositories
                 (emit [Log ''page'' (fmt_int env page @ ''/'' @ fmt_int env lastPage)] w) of
            Return w' \<Rightarrow>
              if page = lastPage then Some (Return w')
              else starredPages env (listStarred user) doUpdate (page + 1) w'
          | Panic p w' \<Rightarrow> Some (Panic p w')
          | Exit n w' \<Rightarrow> Some (Exit n w'))"
    by (subst starredPages.simps) (simp split: outcome.splits)
qed (simp_all add: forEach_append DoPocket_def)

text \<open>
  An instance for \<open>pocket\<close>: an entry that does not parse, one with no project, one
  of an unknown host, then \<open>https://github.com/bob/bar\<close>: three error lines, then the
  clone. An instance for \<open>starred\<close>: a feed of two pages, the first with an entry that
  does not parse and \<open>https://github.com/bob/bar\<close>, the second with an entry with no
  project and \<open>https://github.com/alice/foo\<close>: the command ends, and the lines come
  page by page and entry by entry.
\<close>

theorem batch_skips_rejected_item_witness:
  "itemRejected example_env ''%zz''
   \<and> itemRejected example_env ''https://github.com/onlyowner''
   \<and> itemRejected example_env ''https://example.org/alice/foo''
   \<and> (\<exists>m. forEach (pocketItem example_env False)
              (''%zz'' # [''https://github.com/onlyowner'', ''https://example.org/alice/foo'',
                          ''https://github.com/bob/bar'']) empty_world =
            forEach (pocketItem example_env False)
              [''https://github.com/onlyowner'', ''https://example.org/alice/foo'',
               ''https://github.com/bob/bar'']
              (emit [Log ''error'' m] empty_world))
   \<and> newEvents empty_world
        (DoPocket example_env
           (Inr [''%zz'', ''https://github.com/onlyowner'', ''https://example.org/alice/foo'',
                 ''https://github.com/bob/bar'']) False empty_world) =
       [Log ''pocket'' ''Retrieving github.com entries'',
        Log ''error'' (''Could not parse URL <%zz>: '' @ zz_error),
        Log ''error'' ''Not a valid repository: https://github.com/onlyowner'',
        Log ''error'' ''Unsupported host: example.org'',
        Log ''clone'' ''https://github.com/bob/bar -> /home/user/.ghq/github.com/bob/bar'',
        CloneCall (nullURL\<lparr>Scheme := ''https'', Host := ''github.com'', Path := ''/bob/bar''\<rparr>)
          ''/home/user/.ghq/github.com/bob/bar'']
   \<and> two_pages ''motemen'' 1 = Inr ([Some ''%zz'', Some ''https://github.com/bob/bar''], 2)
   \<and> two_pages ''motemen'' 2 =
       Inr ([Some ''https://github.com/onlyowner'', Some ''https://github.com/alice/foo''], 2)
   \<and> DoStarred example_env ''motemen'' two_pages False empty_world =
       Some (pagesFrom example_env False 2 1
               [[Some ''%zz'', Some ''https://github.com/bob/bar''],
                [Some ''https://github.com/onlyowner'', Some ''https://github.com/alice/foo'']]
               empty_world)
   \<and> map_option (newEvents empty_world)
        (DoStarred example_env ''motemen'' two_pages False empty_world) =
       Some [Log ''page'' ''1/2'',
             Log ''error'' (''Could not parse URL <%!s(*string=0xc000010250)>: '' @ zz_error),
             Log ''clone'' ''https://github.com/bob/bar -> /home/user/.ghq/github.com/bob/bar'',
             CloneCall (nullURL\<lparr>Scheme := ''https'', Host := ''github.com'', Path := ''/bob/bar''\<rparr>)
               ''/home/user/.ghq/github.com/bob/bar'',
             Log ''page'' ''2/2'',
             Log ''error'' ''Not a valid repository: https://github.com/onlyowner'',
             Log ''clone''
               ''https://github.com/alice/foo -> /home/user/.ghq/github.com/alice/foo'',
             CloneCall alice_foo_url ''/home/user/.ghq/github.com/alice/foo'']"
proof -
  let ?p1 = "[Some ''%zz'', Some ''https://github.com/bob/bar'']"
  let ?p2 = "[Some ''https://github.com/onlyowner'', Some ''https://github.com/alice/foo'']"
  have r: "itemRejected example_env ''%zz''
     \<and> itemRejected example_env ''https://github.com/onlyowner''
     \<and> itemRejected example_env ''https://example.org/alice/foo''"
    by (simp add: itemRejected_def example_get_defs)
  from r
    batch_skips_rejected_item [where env = example_env and s = "''%zz''" and doUpdate = False
      and w = empty_world
      and rest = "[''https://github.com/onlyowner'', ''https://example.org/alice/foo'',
                   ''https://github.com/bob/bar'']"]
  have a: "\<exists>m. forEach (pocketItem example_env False)
              (''%zz'' # [''https://github.com/onlyowner'', ''https://example.org/alice/foo'',
                          ''https://github.com/bob/bar'']) empty_world =
            forEach (pocketItem example_env False)
              [''https://github.com/onlyowner'', ''https://example.org/alice/foo'',
               ''https://github.com/bob/bar'']
              (emit [Log ''error'' m] empty_world)"
    by blast
  have b: "newEvents empty_world
        (DoPocket example_env
           (Inr [''%zz'', ''https://github.com/onlyowner'', ''https://example.org/alice/foo'',
                 ''https://github.com/bob/bar'']) False empty_world) =
       [Log ''pocket'' ''Retrieving github.com entries'',
        Log ''error'' (''Could not parse URL <%zz>: '' @ zz_error),
        Log ''error'' ''Not a valid repository: https://github.com/onlyowner'',
        Log ''error'' ''Unsupported host: example.org'',
        Log ''clone'' ''https://github.com/bob/bar -> /home/user/.ghq/github.com/bob/bar'',
        CloneCall (nullURL\<lparr>Scheme := ''https'', Host := ''github.com'', Path := ''/bob/bar''\<rparr>)
          ''/home/user/.ghq/github.com/bob/bar'']"
    by (simp add: DoPocket_def pocketItem_def ErrorIf_def emit_def newEvents_def
          getRemoteRepository_cases example_get_defs)
  have f1: "two_pages ''motemen'' 1 = Inr (?p1, 2)"
    by (simp add: two_pages_def)
  have f2: "two_pages ''motemen'' 2 = Inr (?p2, 2)"
    by (simp add: two_pages_def)
  have feed: "''motemen'' \<noteq> '''' \<and> [?p1, ?p2] \<noteq> []
     \<and> (\<forall>i<length [?p1, ?p2].
           two_pages ''motemen'' (1 + int i) = Inr ([?p1, ?p2] ! i, int (length [?p1, ?p2])))"
    by (auto simp add: two_pages_def less_Suc_eq)
  from feed
    batch_skips_rejected_item [where env = example_env and user = "''motemen''"
      and pages = "[?p1, ?p2]" and listStarred = two_pages and doUpdate = False
      and w = empty_world]
  have "DoStarred example_env ''motemen'' two_pages False empty_world =
       Some (pagesFrom example_env False (int (length [?p1, ?p2])) 1 [?p1, ?p2] empty_world)"
    by blast
  then have c: "DoStarred example_env ''motemen'' two_pages False empty_world =
       Some (pagesFrom example_env False 2 1 [?p1, ?p2] empty_world)"
    by simp
  have d: "newEvents empty_world (pagesFrom example_env False 2 1 [?p1, ?p2] empty_world) =
       [Log ''page'' ''1/2'',
        Log ''error'' (''Could not parse URL <%!s(*string=0xc000010250)>: '' @ zz_error),
        Log ''clone'' ''https://github.com/bob/bar -> /home/user/.ghq/github.com/bob/bar'',
        CloneCall (nullURL\<lparr>Scheme := ''https'', Host := ''github.com'', Path := ''/bob/bar''\<rparr>)
          ''/home/user/.ghq/github.com/bob/bar'',
        Log ''page'' ''2/2'',
        Log ''error'' ''Not a valid repository: https://github.com/onlyowner'',
        Log ''clone''
          ''https://github.com/alice/foo -> /home/user/.ghq/github.com/alice/foo'',
        CloneCall alice_foo_url ''/home/user/.ghq/github.com/alice/foo'']"
    by (simp add: starredItem_def ErrorIf_def emit_def newEvents_def fmt_int_decimal_def
          getRemoteRepository_cases example_get_defs)
  from c d have e: "map_option (newEvents empty_world)
        (DoStarred example_env ''motemen'' two_pages False empty_world) =
       Some [Log ''page'' ''1/2'',
             Log ''error'' (''Could not parse URL <%!s(*string=0xc000010250)>: '' @ zz_error),
             Log ''clone'' ''https://github.com/bob/bar -> /home/user/.ghq/github.com/bob/bar'',
             CloneCall (nullURL\<lparr>Scheme := ''https'', Host := ''github.com'', Path := ''/bob/bar''\<rparr>)
               ''/home/user/.ghq/github.com/bob/bar'',
             Log ''page'' ''2/2'',
             Log ''error'' ''Not a valid repository: https://github.com/onlyowner'',
             Log ''clone''
               ''https://github.com/alice/foo -> /home/user/.ghq/github.com/alice/foo'',
             CloneCall alice_foo_url ''/home/user/.ghq/github.com/alice/foo'']"
    by simp
  from r a b f1 f2 c e show ?thesis by blast
qed

end
